theory Spec2Isabelle
  imports Main "HOL-Library.Multiset"
begin

section \<open>The element tree behind a Synset\<close>

text \<open>
  \<^verbatim>\<open>synset.py\<close> wraps one element of an XML tree held in memory by \<^verbatim>\<open>lxml.etree\<close> or,
  when lxml cannot be imported, by \<^verbatim>\<open>xml.etree.ElementTree\<close> (lines 4 to 7). Elements are
  mutable objects that the view, the tree and the caller share, so they live in a store:
  a reference is an index into the list of all elements allocated so far, and a new
  element is put at the end. The \<open>parent\<close> field is lxml's \<^verbatim>\<open>getparent()\<close>; ElementTree
  elements have no such link and leave it \<open>None\<close>.
\<close>

type_synonym ref = nat

record element =
  tag :: string
  attrib :: "(string \<times> string) list"
  children :: "ref list"
  parent :: "ref option"

type_synonym store = "element list"

datatype etree = Lxml | ElementTree

text \<open>
  A Python exception is its class name and its message. The message texts are written
  without the apostrophes Python puts around names.
\<close>

datatype exn = Exn (exn_class: string) (exn_msg: string)

abbreviation AttributeError :: "string \<Rightarrow> exn" where
  "AttributeError \<equiv> Exn ''AttributeError''"

abbreviation ValueError :: "string \<Rightarrow> exn" where
  "ValueError \<equiv> Exn ''ValueError''"

abbreviation TypeError :: "string \<Rightarrow> exn" where
  "TypeError \<equiv> Exn ''TypeError''"

abbreviation IndexError :: "string \<Rightarrow> exn" where
  "IndexError \<equiv> Exn ''IndexError''"

abbreviation SyntaxError :: "string \<Rightarrow> exn" where
  "SyntaxError \<equiv> Exn ''SyntaxError''"

subsection \<open>The operations of the XML library that synset.py calls\<close>

text \<open>\<^verbatim>\<open>el.get(key)\<close>: the attribute's value, or Python's \<^verbatim>\<open>None\<close>.\<close>

definition get_attr :: "store \<Rightarrow> ref \<Rightarrow> string \<Rightarrow> string option" where
  "get_attr s r k = map_of (attrib (s ! r)) k"

text \<open>The children of \<open>r\<close> that carry tag \<open>t\<close>, in document order: one step of a path.\<close>

definition iterchildren :: "store \<Rightarrow> ref \<Rightarrow> string \<Rightarrow> ref list" where
  "iterchildren s r t = filter (\<lambda>c. tag (s ! c) = t) (children (s ! r))"

text \<open>\<^verbatim>\<open>el.find(t)\<close> for a plain tag name \<open>t\<close>: the first such child, or \<^verbatim>\<open>None\<close>.\<close>

definition find_el :: "store \<Rightarrow> ref \<Rightarrow> string \<Rightarrow> ref option" where
  "find_el s r t = (case iterchildren s r t of [] \<Rightarrow> None | c # _ \<Rightarrow> Some c)"

text \<open>
  \<^verbatim>\<open>etree.SubElement(parent, tag, attrib)\<close> allocates an element and appends it to the
  children of \<open>p\<close>; it returns the new element.
\<close>

definition SubElement :: "etree \<Rightarrow> ref \<Rightarrow> string \<Rightarrow> (string \<times> string) list \<Rightarrow> store \<Rightarrow> ref \<times> store" where
  "SubElement lib p tg attrs s =
     (let n = length s;
          e = \<lparr>tag = tg, attrib = attrs, children = [],
               parent = (case lib of Lxml \<Rightarrow> Some p | ElementTree \<Rightarrow> None)\<rparr>;
          s1 = s @ [e]
      in (n, s1[p := (s1 ! p)\<lparr>children := children (s1 ! p) @ [n]\<rparr>]))"

text \<open>
  \<^verbatim>\<open>p.append(c)\<close>. ElementTree adds one more entry to the list of children of \<open>p\<close> and
  leaves every other list alone, so an element can be listed twice. lxml moves the
  element: it is unlinked from its present parent and linked in as the last child of \<open>p\<close>.
  (lxml refuses to append an ancestor of \<open>p\<close>; synset.py appends only elements it has just
  created, which have no children, so that refusal is not part of the model.)
\<close>

definition append_el :: "etree \<Rightarrow> ref \<Rightarrow> ref \<Rightarrow> store \<Rightarrow> store" where
  "append_el lib p c s =
     (case lib of
        ElementTree \<Rightarrow> s[p := (s ! p)\<lparr>children := children (s ! p) @ [c]\<rparr>]
      | Lxml \<Rightarrow>
          (let s1 = (case parent (s ! c) of
                       None \<Rightarrow> s
                     | Some q \<Rightarrow> s[q := (s ! q)\<lparr>children := remove1 c (children (s ! q))\<rparr>]);
               s2 = s1[p := (s1 ! p)\<lparr>children := children (s1 ! p) @ [c]\<rparr>]
           in s2[c := (s2 ! c)\<lparr>parent := Some p\<rparr>]))"

text \<open>
  lxml's \<^verbatim>\<open>p.remove(c)\<close>: a \<^verbatim>\<open>ValueError\<close> unless \<open>p\<close> is the parent of \<open>c\<close>, else \<open>c\<close> is
  unlinked.
\<close>

definition remove_child :: "ref \<Rightarrow> ref \<Rightarrow> store \<Rightarrow> exn + store" where
  "remove_child p c s =
     (if parent (s ! c) \<noteq> Some p then Inl (ValueError ''Element is not a child of this node.'')
      else (let s1 = s[p := (s ! p)\<lparr>children := remove1 c (children (s ! p))\<rparr>]
            in Inr (s1[c := (s1 ! c)\<lparr>parent := None\<rparr>])))"

subsection \<open>Paths\<close>

text \<open>
  \<^verbatim>\<open>find\<close> and \<^verbatim>\<open>iterfind\<close> take a path in the small XPath dialect of module
  \<^verbatim>\<open>ElementPath\<close>, which lxml and the standard library share. \<^verbatim>\<open>relations\<close> builds its
  path from its argument, so the path reader is part of what it computes. The model
  follows the reader of CPython 3.10 and later and of lxml 4 and later, and covers the
  part of the dialect that synset.py can reach with certainty: steps to children by tag,
  and predicates on an attribute value. A path that uses anything else has the outcome
  \<open>Unmodelled\<close>, about which nothing is claimed. A character stands for a code point
  below 256.
\<close>

datatype 'a outcome = Returns 'a | Raises exn | Unmodelled

type_synonym token = "string \<times> string"

abbreviation dq :: char where "dq \<equiv> CHR 0x22"
abbreviation sq :: char where "sq \<equiv> CHR 0x27"

text \<open>The white space of Python's regular expressions, and the characters of a tag name.\<close>

definition is_space :: "char \<Rightarrow> bool" where
  "is_space c = (c \<in> set [CHR '' '', CHR 0x09, CHR 0x0A, CHR 0x0B, CHR 0x0C, CHR 0x0D,
                           CHR 0x1C, CHR 0x1D, CHR 0x1E, CHR 0x1F, CHR 0x85, CHR 0xA0])"

definition tag_char :: "char \<Rightarrow> bool" where
  "tag_char c = (c \<notin> set ''/[]()@!='' \<and> \<not> is_space c)"

text \<open>
  The tokenizer is a regular expression applied with \<^verbatim>\<open>findall\<close>. At each position its
  alternatives are tried in order: a string in single or double quotes (up to the next
  quote of the same kind), one of the operators \<^verbatim>\<open>::\<close>, \<^verbatim>\<open>//\<close>, \<^verbatim>\<open>..\<close>, \<^verbatim>\<open>()\<close>, \<^verbatim>\<open>!=\<close>, a single
  character of \<^verbatim>\<open>/.*:[]()@=\<close>, a tag name (with an optional namespace in braces in front),
  a run of white space; a character that starts none of them is skipped. A token is the
  pair of the operator or string matched and the tag name matched, one of them empty.
  \<open>match_at\<close> gives the token at a position and the number of characters it takes.
\<close>

definition match_tag :: "char \<Rightarrow> string \<Rightarrow> string" where
  "match_tag c cs =
     (let plain = takeWhile tag_char (c # cs);
          uri = takeWhile (\<lambda>x. x \<noteq> CHR ''}'') cs;
          name = takeWhile tag_char (drop (Suc (length uri)) cs)
      in if c = CHR ''{'' \<and> uri \<noteq> [] \<and> length uri < length cs \<and> name \<noteq> []
         then c # uri @ CHR ''}'' # name
         else plain)"

definition match_at :: "char \<Rightarrow> string \<Rightarrow> token option \<times> nat" where
  "match_at c cs =
     (if (c = sq \<or> c = dq) \<and> c \<in> set cs then
        (let body = takeWhile (\<lambda>x. x \<noteq> c) cs in (Some (c # body @ [c], []), length body + 2))
      else if c = CHR '':'' \<and> take 1 cs = '':'' then (Some ([CHR '':'', CHR '':''], []), 2)
      else if c = CHR ''/'' \<and> take 1 cs = ''/'' then (Some (''//'', []), 2)
      else if c = CHR ''.'' \<and> take 1 cs = ''.'' then (Some (''..'', []), 2)
      else if c = CHR ''('' \<and> take 1 cs = '')'' then (Some (''()'', []), 2)
      else if c = CHR ''!'' \<and> take 1 cs = ''='' then (Some (''!='', []), 2)
      else if c \<in> set ''/.*:[]()@='' then (Some ([c], []), 1)
      else if match_tag c cs \<noteq> [] then (Some ([], match_tag c cs), length (match_tag c cs))
      else if is_space c then (Some ([], []), Suc (length (takeWhile is_space cs)))
      else (None, 1))"

fun xpath_tokenizer_re :: "string \<Rightarrow> token list" where
  "xpath_tokenizer_re [] = []"
| "xpath_tokenizer_re (c # cs) =
     (case match_at c cs of
        (tok, k) \<Rightarrow> (case tok of None \<Rightarrow> [] | Some t \<Rightarrow> [t]) @ xpath_tokenizer_re (drop (k - 1) cs))"

text \<open>
  The tokens are read by a loop that expects a step, then an optional \<^verbatim>\<open>/\<close>, then the next
  step; a \<^verbatim>\<open>[\<close> opens a predicate, whose tokens up to \<^verbatim>\<open>]\<close> are collected into a signature
  (the operators, with \<^verbatim>\<open>-\<close> for a name and one single quote for a string) and the list of
  their texts. The signature of \<^verbatim>\<open>[@name="value"]\<close> is \<^verbatim>\<open>@-='\<close>; the other signatures the
  library knows are not modelled; every other signature is the \<^verbatim>\<open>SyntaxError\<close>
  \<^verbatim>\<open>invalid predicate\<close>. A name with a colon is a namespace prefix, and no prefixes are
  declared.
\<close>

datatype step = Child string | AttrEq string string

datatype pstate = NeedOp | AfterStep | InPredicate string "string list"

definition bad_prefix :: "token \<Rightarrow> bool" where
  "bad_prefix t = (snd t \<noteq> [] \<and> hd (snd t) \<noteq> CHR ''{'' \<and> CHR '':'' \<in> set (snd t))"

definition plain_tag :: "string \<Rightarrow> bool" where
  "plain_tag tg = (tg \<noteq> [] \<and> CHR ''{'' \<notin> set tg \<and> CHR ''*'' \<notin> set tg)"

definition known_signatures :: "string list" where
  "known_signatures =
     [''@-'', ''@-!='' @ [sq], ''-'', ''.='' @ [sq], ''.!='' @ [sq], ''-='' @ [sq],
      ''-!='' @ [sq], ''-()'', ''-()-'']"

definition predicate_step :: "string \<Rightarrow> string list \<Rightarrow> step outcome" where
  "predicate_step sig pred =
     (if sig = ''@-='' @ [sq] then Returns (AttrEq (pred ! 1) (last pred))
      else if sig \<in> set known_signatures then Unmodelled
      else Raises (SyntaxError ''invalid predicate''))"

fun compile :: "pstate \<Rightarrow> token list \<Rightarrow> step list \<Rightarrow> step list outcome" where
  "compile st [] acc = (case st of AfterStep \<Rightarrow> Returns acc | _ \<Rightarrow> Unmodelled)"
| "compile st (t # ts) acc =
     (if bad_prefix t then Raises (SyntaxError ''prefix not found in prefix map'')
      else case st of
        InPredicate sig pred \<Rightarrow>
          (if fst t = '']'' then
             (case predicate_step sig pred of
                Returns stp \<Rightarrow> compile AfterStep ts (acc @ [stp])
              | Raises e \<Rightarrow> Raises e
              | Unmodelled \<Rightarrow> Unmodelled)
           else if t = ([], []) then compile st ts acc
           else if fst t \<noteq> [] \<and> (hd (fst t) = sq \<or> hd (fst t) = dq) then
             compile (InPredicate (sig @ [sq]) (pred @ [butlast (tl (fst t))])) ts acc
           else compile (InPredicate (sig @ (if fst t = [] then ''-'' else fst t))
                           (pred @ [snd t])) ts acc)
      | _ \<Rightarrow>
          (if st = AfterStep \<and> fst t = ''/'' then compile NeedOp ts acc
           else if fst t = [] then
             (if plain_tag (snd t) then compile AfterStep ts (acc @ [Child (snd t)])
              else Unmodelled)
           else if fst t = ''['' then compile (InPredicate [] []) ts acc
           else Unmodelled))"

fun select :: "store \<Rightarrow> step \<Rightarrow> ref list \<Rightarrow> ref list" where
  "select s (Child tg) rs = concat (map (\<lambda>r. iterchildren s r tg) rs)"
| "select s (AttrEq k v) rs = filter (\<lambda>r. get_attr s r k = Some v) rs"

definition iterfind :: "store \<Rightarrow> ref \<Rightarrow> string \<Rightarrow> ref list outcome" where
  "iterfind s r path =
     (if path \<noteq> [] \<and> hd path = CHR ''/''
      then Raises (SyntaxError ''cannot use absolute path on element'')
      else if path \<noteq> [] \<and> last path = CHR ''/'' then Unmodelled
      else case compile NeedOp (xpath_tokenizer_re path) [] of
             Returns steps \<Rightarrow> Returns (foldl (\<lambda>rs stp. select s stp rs) [r] steps)
           | Raises e \<Rightarrow> Raises e
           | Unmodelled \<Rightarrow> Unmodelled)"

text \<open>
  A store is well formed when no list of children and no parent link points outside it.
  Every tree that a parser or the operations above build is.
\<close>

definition wf_store :: "store \<Rightarrow> bool" where
  "wf_store s =
     list_all (\<lambda>e. list_all (\<lambda>c. c < length s) (children e) \<and>
                   (case parent e of None \<Rightarrow> True | Some p \<Rightarrow> p < length s)) s"

section \<open>Class Synset\<close>

text \<open>
  The instance attributes are those \<^verbatim>\<open>__init__\<close> assigns. The field \<open>validate_relation\<close> is
  what looking up the attribute \<^verbatim>\<open>self.validate_relation\<close> gives: the class body of
  \<^verbatim>\<open>Synset(object)\<close> defines \<^verbatim>\<open>id\<close>, \<^verbatim>\<open>ili\<close>, \<^verbatim>\<open>glosses\<close>, \<^verbatim>\<open>all_relations\<close>, \<^verbatim>\<open>pos\<close>,
  \<^verbatim>\<open>relations\<close>, \<^verbatim>\<open>remove\<close> and \<^verbatim>\<open>add_relation\<close> and nothing of that name, so for an
  instance of the class as written the lookup finds nothing (\<open>None\<close>); only an instance
  that has been given the routine from outside (a subclass, an assignment to the
  instance) finds one. The routine receives the source identifier, the relation type and
  the target, and either returns or raises.
\<close>

type_synonym validator = "string option \<Rightarrow> string \<Rightarrow> string \<Rightarrow> exn option"

record synset =
  synset_el :: ref
  reltypes :: "string set"
  syn_ids :: "string set"
  defs_els :: "ref option"
  refs_el :: "ref option"
  validate_relation :: "validator option"

text \<open>\<^verbatim>\<open>Synset(synset_el, reltypes, syn_ids)\<close>, lines 25 to 32.\<close>

definition Synset_init :: "ref \<Rightarrow> string set \<Rightarrow> string set \<Rightarrow> store \<Rightarrow> synset" where
  "Synset_init el rts ids s =
     \<lparr>synset_el = el, reltypes = rts, syn_ids = ids,
      defs_els = find_el s el ''Definitions'',
      refs_el = find_el s el ''SynsetRelations'',
      validate_relation = None\<rparr>"

definition synset_id :: "synset \<Rightarrow> store \<Rightarrow> string option" where
  "synset_id self s = get_attr s (synset_el self) ''id''"

definition ili :: "synset \<Rightarrow> store \<Rightarrow> string option" where
  "ili self s = get_attr s (synset_el self) ''ili''"

text \<open>
  \<^verbatim>\<open>self.id()[-1]\<close>: subscripting \<^verbatim>\<open>None\<close> is a \<^verbatim>\<open>TypeError\<close>, the last character of the
  empty string an \<^verbatim>\<open>IndexError\<close>.
\<close>

definition pos :: "synset \<Rightarrow> store \<Rightarrow> exn + string" where
  "pos self s =
     (case synset_id self s of
        None \<Rightarrow> Inl (TypeError ''NoneType object is not subscriptable'')
      | Some i \<Rightarrow> if i = [] then Inl (IndexError ''string index out of range'')
                  else Inr [last i])"

text \<open>
  What a Python call returns: here \<^verbatim>\<open>None\<close>, or the tuple that the docstring of
  \<^verbatim>\<open>add_relation\<close> announces.
\<close>

datatype pyval = PyNone | PyBool bool | PyStr string | PyTuple "pyval list"

text \<open>
  Modelled from the spec: class \<^verbatim>\<open>Relation\<close> of \<^verbatim>\<open>relation.py\<close>, which synset.py imports, is
  not among the sources. The specification (section 3) gives a Relation a type and a
  target, both strings read from the relation element it is a view of, whose attributes
  are \<^verbatim>\<open>relType\<close> and \<^verbatim>\<open>target\<close> (section 6); no check is made at this layer.
\<close>

datatype relation = Relation (relation_el: ref)

definition get_reltype :: "relation \<Rightarrow> store \<Rightarrow> string option" where
  "get_reltype rel s = get_attr s (relation_el rel) ''relType''"

definition get_target :: "relation \<Rightarrow> store \<Rightarrow> string option" where
  "get_target rel s = get_attr s (relation_el rel) ''target''"

text \<open>
  \<^verbatim>\<open>glosses\<close>, lines 52 to 64. \<^verbatim>\<open>def_el.get('language') in languages\<close> is false for an
  element without the attribute.
\<close>

definition glosses :: "synset \<Rightarrow> string set \<Rightarrow> store \<Rightarrow> string option list" where
  "glosses self languages s =
     (case defs_els self of
        Some d \<Rightarrow>
          map (\<lambda>def_el. get_attr s def_el ''gloss'')
            (filter (\<lambda>def_el. case get_attr s def_el ''language'' of
                                None \<Rightarrow> False | Some l \<Rightarrow> l \<in> languages)
               (iterchildren s d ''Definition''))
      | None \<Rightarrow> [])"

text \<open>The default value of the parameter \<^verbatim>\<open>languages\<close>, and the call \<^verbatim>\<open>glosses()\<close> that uses it.\<close>

definition default_languages :: "string set" where
  "default_languages = {''en'', ''nl''}"

definition glosses_default :: "synset \<Rightarrow> store \<Rightarrow> string option list" where
  "glosses_default self s = glosses self default_languages s"

text \<open>
  \<^verbatim>\<open>all_relations\<close>, lines 66 to 75: the path \<^verbatim>\<open>SynsetRelations/SynsetRelation\<close> is two child
  steps from the Synset element. The generator is consumed at once wherever synset.py
  uses it, so the model is the list of what it yields.
\<close>

definition all_relations :: "synset \<Rightarrow> store \<Rightarrow> relation list" where
  "all_relations self s =
     map Relation
       (concat (map (\<lambda>c. iterchildren s c ''SynsetRelation'')
                  (iterchildren s (synset_el self) ''SynsetRelations'')))"

text \<open>
  \<^verbatim>\<open>relations\<close>, lines 86 to 99: the relation type is substituted into the text of the path
  between double quotes, as it is.
\<close>

definition relations :: "synset \<Rightarrow> string \<Rightarrow> store \<Rightarrow> relation list outcome" where
  "relations self reltype s =
     (let xml_query = ''SynsetRelations/SynsetRelation[@relType='' @ [dq] @ reltype @ [dq] @ '']''
      in case iterfind s (synset_el self) xml_query of
           Returns rs \<Rightarrow> Returns (map Relation rs)
         | Raises e \<Rightarrow> Raises e
         | Unmodelled \<Rightarrow> Unmodelled)"

text \<open>
  \<^verbatim>\<open>remove\<close>, lines 101 to 103. \<^verbatim>\<open>getparent()\<close> exists only in lxml; there it is \<^verbatim>\<open>None\<close> for
  an element without a parent, and \<^verbatim>\<open>None\<close> has no method \<^verbatim>\<open>remove\<close>.
\<close>

definition remove :: "etree \<Rightarrow> synset \<Rightarrow> store \<Rightarrow> (exn + pyval) \<times> store" where
  "remove lib self s =
     (case lib of
        ElementTree \<Rightarrow> (Inl (AttributeError ''Element object has no attribute getparent''), s)
      | Lxml \<Rightarrow>
          (case parent (s ! synset_el self) of
             None \<Rightarrow> (Inl (AttributeError ''NoneType object has no attribute remove''), s)
           | Some p \<Rightarrow>
               (case remove_child p (synset_el self) s of
                  Inl e \<Rightarrow> (Inl e, s)
                | Inr s' \<Rightarrow> (Inr PyNone, s'))))"

text \<open>
  \<^verbatim>\<open>add_relation\<close>, lines 105 to 141. Every statement that can raise is a branch, and the
  store is returned with the exception, since the statements before it have taken effect.
  The function has no \<^verbatim>\<open>return\<close> statement, so a call that completes returns \<^verbatim>\<open>None\<close>.
\<close>

definition add_relation :: "etree \<Rightarrow> synset \<Rightarrow> string \<Rightarrow> string \<Rightarrow> store \<Rightarrow> (exn + pyval) \<times> store" where
  "add_relation lib self reltype target s =
     (let source = synset_id self s in
      case validate_relation self of
        None \<Rightarrow> (Inl (AttributeError ''Synset object has no attribute validate_relation''), s)
      | Some validate \<Rightarrow>
          (case validate source reltype target of
             Some e \<Rightarrow> (Inl e, s)
           | None \<Rightarrow>
               (let existing_rels = map (\<lambda>rel_el. (get_reltype rel_el s, get_target rel_el s))
                                      (all_relations self s)
                in if (Some reltype, Some target) \<in> set existing_rels
                   then (Inl (ValueError ''relation already exists''), s)
                   else
                     (let s1 = (case refs_el self of
                                  None \<Rightarrow>
                                    (let (new_refs_el, s') =
                                           SubElement lib (synset_el self) ''SynsetRelations'' [] s
                                     in append_el lib (synset_el self) new_refs_el s')
                                | Some _ \<Rightarrow> s);
                          (new_rel_el, s2) =
                            SubElement lib (synset_el self) ''SynsetRelation''
                              [(''provenance'', ''odwn''), (''relType'', reltype), (''target'', target)] s1
                      in case refs_el self of
                           None \<Rightarrow> (Inl (AttributeError ''NoneType object has no attribute append''), s2)
                         | Some r \<Rightarrow> (Inr PyNone, append_el lib r new_rel_el s2)))))"

text \<open>
  Modelled from the spec: the validation routine that \<^verbatim>\<open>add_relation\<close> calls is not defined
  in synset.py. The specification (section 4.1, step 1, and section 6) describes it: given
  the source identifier, the type and the target, it checks the type against the known
  relation types and the target against the known node identifiers, and raises a
  validation failure of kind \<^verbatim>\<open>InvalidRelationType\<close> or \<^verbatim>\<open>InvalidTarget\<close> otherwise.
\<close>

definition validate_relation_spec :: "string set \<Rightarrow> string set \<Rightarrow> validator" where
  "validate_relation_spec rts ids source reltype target =
     (if reltype \<notin> rts then Some (Exn ''InvalidRelationType'' reltype)
      else if target \<notin> ids then Some (Exn ''InvalidTarget'' target)
      else None)"

text \<open>A Synset whose attribute \<^verbatim>\<open>validate_relation\<close> has been supplied from outside.\<close>

definition with_validator :: "validator \<Rightarrow> synset \<Rightarrow> synset" where
  "with_validator v self = self\<lparr>validate_relation := Some v\<rparr>"

section \<open>Example documents\<close>

text \<open>
  The element of the class docstring (identifier \<^verbatim>\<open>eng-30-00324560-v\<close>) with its two
  relations, as the only child of a root element: reference 0 is the root, 1 the Synset,
  2 its SynsetRelations container, 3 and 4 the relations.
\<close>

definition doc_bake :: "etree \<Rightarrow> store" where
  "doc_bake lib =
     (let up = (\<lambda>p. case lib of Lxml \<Rightarrow> Some p | ElementTree \<Rightarrow> None) in
      [\<lparr>tag = ''Synsets'', attrib = [], children = [1], parent = None\<rparr>,
       \<lparr>tag = ''Synset'', attrib = [(''id'', ''eng-30-00324560-v''), (''ili'', ''i23355'')],
        children = [2], parent = up 0\<rparr>,
       \<lparr>tag = ''SynsetRelations'', attrib = [], children = [3, 4], parent = up 1\<rparr>,
       \<lparr>tag = ''SynsetRelation'',
        attrib = [(''provenance'', ''pwn''), (''relType'', ''has_hyperonym''),
                  (''target'', ''eng-30-00322847-v'')],
        children = [], parent = up 2\<rparr>,
       \<lparr>tag = ''SynsetRelation'',
        attrib = [(''provenance'', ''pwn''), (''relType'', ''has_hyponym''),
                  (''target'', ''eng-30-00325085-v'')],
        children = [], parent = up 2\<rparr>])"

text \<open>
  A Synset in the input format of the specification, with a Definitions section of three
  glosses and no SynsetRelations section: reference 0 is the root, 1 the Synset, 2 the
  Definitions section, 3 to 5 the definitions.
\<close>

definition doc_glossed :: "etree \<Rightarrow> store" where
  "doc_glossed lib =
     (let up = (\<lambda>p. case lib of Lxml \<Rightarrow> Some p | ElementTree \<Rightarrow> None) in
      [\<lparr>tag = ''Synsets'', attrib = [], children = [1], parent = None\<rparr>,
       \<lparr>tag = ''Synset'', attrib = [(''id'', ''eng-30-00324560-v''), (''ili'', ''i23355'')],
        children = [2], parent = up 0\<rparr>,
       \<lparr>tag = ''Definitions'', attrib = [], children = [3, 4, 5], parent = up 1\<rparr>,
       \<lparr>tag = ''Definition'',
        attrib = [(''gloss'', ''cook with dry heat, usually in an oven''), (''language'', ''en''),
                  (''provenance'', ''pwn'')],
        children = [], parent = up 2\<rparr>,
       \<lparr>tag = ''Definition'',
        attrib = [(''gloss'', ''im Ofen garen''), (''language'', ''de''), (''provenance'', ''odwn'')],
        children = [], parent = up 2\<rparr>,
       \<lparr>tag = ''Definition'',
        attrib = [(''gloss'', ''in de oven gaar maken''), (''language'', ''nl''),
                  (''provenance'', ''odwn'')],
        children = [], parent = up 2\<rparr>])"

text \<open>The vocabularies used in the examples.\<close>

definition known_reltypes :: "string set" where
  "known_reltypes = {''has_hyperonym'', ''has_hyponym''}"

definition known_ids :: "string set" where
  "known_ids = {''eng-30-00324560-v'', ''eng-30-00322847-v'', ''eng-30-00325085-v''}"

text \<open>
  A Synset with two relations, the second of which has the relation type \<^verbatim>\<open>"\<close> (one
  double quote): reference 0 is the root, 1 the Synset, 2 the container.
\<close>

definition doc_quoted :: store where
  "doc_quoted =
     [\<lparr>tag = ''Synsets'', attrib = [], children = [1], parent = None\<rparr>,
      \<lparr>tag = ''Synset'', attrib = [(''id'', ''eng-30-00324560-v'')], children = [2],
       parent = Some 0\<rparr>,
      \<lparr>tag = ''SynsetRelations'', attrib = [], children = [3, 4], parent = Some 1\<rparr>,
      \<lparr>tag = ''SynsetRelation'',
       attrib = [(''provenance'', ''pwn''), (''relType'', ''has_hyperonym''),
                 (''target'', ''eng-30-00322847-v'')],
       children = [], parent = Some 2\<rparr>,
      \<lparr>tag = ''SynsetRelation'',
       attrib = [(''provenance'', ''odwn''), (''relType'', [dq]),
                 (''target'', ''eng-30-00325085-v'')],
       children = [], parent = Some 2\<rparr>]"

definition synset_quoted :: synset where
  "synset_quoted = Synset_init 1 known_reltypes known_ids doc_quoted"

text \<open>
  The two example Synsets as lxml views with the example vocabularies, and a Synset given
  the validation routine of the specification over its own vocabularies.
\<close>

definition synset_bake :: synset where
  "synset_bake = Synset_init 1 known_reltypes known_ids (doc_bake Lxml)"

definition synset_glossed :: synset where
  "synset_glossed = Synset_init 1 known_reltypes known_ids (doc_glossed Lxml)"

definition validated :: "synset \<Rightarrow> synset" where
  "validated self = with_validator (validate_relation_spec (reltypes self) (syn_ids self)) self"

text \<open>
  The store that a call of \<^verbatim>\<open>add_relation\<close> leaves behind when the Synset had no
  SynsetRelations element at construction: lines 132 and 133 have put an empty
  SynsetRelations element under the Synset element (twice, with ElementTree, whose
  \<^verbatim>\<open>append\<close> lists it again), line 136 has put the new SynsetRelation element under the
  Synset element as well, and line 141 has raised.
\<close>

definition stranded :: "etree \<Rightarrow> ref \<Rightarrow> string \<Rightarrow> string \<Rightarrow> store \<Rightarrow> store" where
  "stranded lib el reltype target s =
     (let up = (case lib of Lxml \<Rightarrow> Some el | ElementTree \<Rightarrow> None); n = length s in
      (s @ [\<lparr>tag = ''SynsetRelations'', attrib = [], children = [], parent = up\<rparr>,
            \<lparr>tag = ''SynsetRelation'',
             attrib = [(''provenance'', ''odwn''), (''relType'', reltype), (''target'', target)],
             children = [], parent = up\<rparr>])
       [el := (s ! el)\<lparr>children := children (s ! el) @
                (case lib of Lxml \<Rightarrow> [n, Suc n] | ElementTree \<Rightarrow> [n, n, Suc n])\<rparr>])"

text \<open>
  The store after a call of \<^verbatim>\<open>add_relation\<close> that completes, for a Synset whose container
  \<open>r\<close> was found at construction: the new SynsetRelation element is the last child of
  \<open>r\<close>. With lxml, line 141 moves it there from under the Synset element, where line 136
  had put it; with ElementTree it stays listed under the Synset element as well.
\<close>

definition linked :: "etree \<Rightarrow> ref \<Rightarrow> ref \<Rightarrow> string \<Rightarrow> string \<Rightarrow> store \<Rightarrow> store" where
  "linked lib el r reltype target s =
     (let n = length s;
          e = \<lparr>tag = ''SynsetRelation'',
               attrib = [(''provenance'', ''odwn''), (''relType'', reltype), (''target'', target)],
               children = [], parent = (case lib of Lxml \<Rightarrow> Some r | ElementTree \<Rightarrow> None)\<rparr>;
          s1 = s @ [e];
          s2 = (case lib of
                  Lxml \<Rightarrow> s1
                | ElementTree \<Rightarrow> s1[el := (s ! el)\<lparr>children := children (s ! el) @ [n]\<rparr>])
      in s2[r := (s2 ! r)\<lparr>children := children (s2 ! r) @ [n]\<rparr>])"

text \<open>The (type, target) pairs of the relations of a node, as line 124 computes them.\<close>

definition existing_rels :: "synset \<Rightarrow> store \<Rightarrow> (string option \<times> string option) list" where
  "existing_rels self s =
     map (\<lambda>rel_el. (get_reltype rel_el s, get_target rel_el s)) (all_relations self s)"

section \<open>The part of speech\<close>

text \<open>
  C9. For every node whose \<^verbatim>\<open>id\<close> attribute is present and not empty, \<^verbatim>\<open>pos()\<close> returns
  the last character of \<^verbatim>\<open>id()\<close>.
\<close>

theorem pos_last_char_of_id:
  assumes "synset_id self s = Some i" and "i \<noteq> []"
  shows "pos self s = Inr [last i]"
  using assms by (simp add: pos_def)

text \<open>The example of the specification: identifier \<^verbatim>\<open>eng-30-00324560-v\<close> has part of speech \<^verbatim>\<open>v\<close>.\<close>

theorem pos_last_char_of_id_witness:
  "synset_id (Synset_init 1 {} {} (doc_bake Lxml)) (doc_bake Lxml) = Some ''eng-30-00324560-v''
   \<and> ''eng-30-00324560-v'' \<noteq> []
   \<and> pos (Synset_init 1 {} {} (doc_bake Lxml)) (doc_bake Lxml) = Inr ''v''"
proof -
  have h: "synset_id (Synset_init 1 {} {} (doc_bake Lxml)) (doc_bake Lxml) = Some ''eng-30-00324560-v''"
    by (simp add: synset_id_def Synset_init_def get_attr_def doc_bake_def)
  have n: "''eng-30-00324560-v'' \<noteq> []" by simp
  show ?thesis using h pos_last_char_of_id [OF h n] by simp
qed

section \<open>General facts about the store\<close>

lemma wf_store_children:
  "wf_store s \<Longrightarrow> r < length s \<Longrightarrow> c \<in> set (children (s ! r)) \<Longrightarrow> c < length s"
  by (auto simp: wf_store_def list_all_iff dest!: nth_mem)

lemma all_relations_no_container:
  "find_el s (synset_el self) ''SynsetRelations'' = None \<Longrightarrow> all_relations self s = []"
  by (simp add: all_relations_def find_el_def split: list.splits)

lemma comprehension_as_filter: "[f c. c \<leftarrow> xs, P c, Q c] = map f (filter Q (filter P xs))"
  by (induction xs) auto

lemma wf_doc_glossed: "wf_store (doc_glossed lib)"
  by (cases lib) (simp_all add: wf_store_def doc_glossed_def)

lemma wf_doc_bake: "wf_store (doc_bake lib)"
  by (cases lib) (simp_all add: wf_store_def doc_bake_def)

lemma all_relations_doc_bake:
  "synset_el self = 1 \<Longrightarrow> all_relations self (doc_bake lib) = [Relation 3, Relation 4]"
  by (simp add: all_relations_def iterchildren_def doc_bake_def)

lemma existing_rels_doc_bake:
  "synset_el self = 1 \<Longrightarrow>
   existing_rels self (doc_bake lib) =
     [(Some ''has_hyperonym'', Some ''eng-30-00322847-v''),
      (Some ''has_hyponym'', Some ''eng-30-00325085-v'')]"
  by (simp add: existing_rels_def all_relations_doc_bake)
     (simp add: get_reltype_def get_target_def get_attr_def doc_bake_def)

subsection \<open>Adding a relation once validation is supplied\<close>

text \<open>
  The class as written never gets past line 122. The lemmas below describe lines 124 to
  141, for an instance that has been given a validation routine.
\<close>

lemma add_relation_validation_raises:
  "validate (synset_id self s) reltype target = Some e \<Longrightarrow>
   add_relation lib (with_validator validate self) reltype target s = (Inl e, s)"
  by (simp add: add_relation_def with_validator_def synset_id_def)

lemma add_relation_validated_raises:
  "reltype \<notin> reltypes self \<Longrightarrow>
   add_relation lib (validated self) reltype target s =
     (Inl (Exn ''InvalidRelationType'' reltype), s)"
  "reltype \<in> reltypes self \<Longrightarrow> target \<notin> syn_ids self \<Longrightarrow>
   add_relation lib (validated self) reltype target s =
     (Inl (Exn ''InvalidTarget'' target), s)"
  by (simp_all add: validated_def add_relation_validation_raises validate_relation_spec_def)

lemma add_relation_duplicate_raises:
  "validate (synset_id self s) reltype target = None \<Longrightarrow>
   (Some reltype, Some target) \<in> set (existing_rels self s) \<Longrightarrow>
   add_relation lib (with_validator validate self) reltype target s =
     (Inl (ValueError ''relation already exists''), s)"
  by (simp add: add_relation_def with_validator_def synset_id_def all_relations_def
      existing_rels_def)

lemma add_relation_returns_none:
  "fst (add_relation lib self reltype target s) = Inr v \<Longrightarrow> v = PyNone"
  by (auto simp: add_relation_def Let_def split: option.splits if_splits prod.splits)

lemma find_el_SomeD:
  assumes "find_el s el t = Some r"
  shows "r \<in> set (children (s ! el))" and "tag (s ! r) = t"
proof -
  from assms obtain cs where f: "filter (\<lambda>c. tag (s ! c) = t) (children (s ! el)) = r # cs"
    by (auto simp: find_el_def iterchildren_def split: list.splits)
  then have "r \<in> set (filter (\<lambda>c. tag (s ! c) = t) (children (s ! el)))" by simp
  then show "r \<in> set (children (s ! el))" and "tag (s ! r) = t" by simp_all
qed

lemma add_relation_linked:
  assumes wf: "wf_store s" and el: "el < length s"
    and fc: "find_el s el ''SynsetRelations'' = Some r"
    and tg: "tag (s ! el) \<noteq> ''SynsetRelations''"
    and v: "validate (get_attr s el ''id'') reltype target = None"
    and new: "(Some reltype, Some target) \<notin> set (existing_rels (Synset_init el rts ids s) s)"
  shows "add_relation lib (with_validator validate (Synset_init el rts ids s)) reltype target s =
     (Inr PyNone, linked lib el r reltype target s)"
proof -
  have rin: "r \<in> set (children (s ! el))" and rt: "tag (s ! r) = ''SynsetRelations''"
    using find_el_SomeD[OF fc] by simp_all
  have rl: "r < length s" using wf_store_children[OF wf el rin] .
  have rne: "r \<noteq> el" using tg rt by auto
  have nin: "length s \<notin> set (children (s ! el))"
    using wf_store_children[OF wf el] by auto
  then have rm: "remove1 (length s) (children (s ! el)) = children (s ! el)"
    by (simp add: remove1_idem)
  have same: "all_relations (with_validator validate (Synset_init el rts ids s)) s =
              all_relations (Synset_init el rts ids s) s"
    by (simp add: all_relations_def with_validator_def Synset_init_def)
  have new': "(Some reltype, Some target) \<notin>
      set (map (\<lambda>rel_el. (get_reltype rel_el s, get_target rel_el s))
             (all_relations (with_validator validate (Synset_init el rts ids s)) s))"
    using new unfolding existing_rels_def same .
  show ?thesis
    using el fc v new' rl rne nin rm
    by (cases lib)
       (simp_all add: linked_def add_relation_def with_validator_def Synset_init_def
          synset_id_def SubElement_def append_el_def Let_def nth_append list_update_append
          remove1_append nth_list_update list_update_swap[of el r])
qed


lemma linked_old:
  assumes "c < length s" and "r < length s" and "el < length s"
  shows "tag (linked lib el r reltype target s ! c) = tag (s ! c)"
    and "attrib (linked lib el r reltype target s ! c) = attrib (s ! c)"
  using assms by (cases lib; simp add: linked_def Let_def nth_list_update nth_append)+

lemma linked_new:
  assumes "r < length s" and "el < length s"
  shows "tag (linked lib el r reltype target s ! length s) = ''SynsetRelation''"
    and "attrib (linked lib el r reltype target s ! length s) =
           [(''provenance'', ''odwn''), (''relType'', reltype), (''target'', target)]"
  using assms by (cases lib; simp add: linked_def Let_def nth_list_update nth_append)+

lemma linked_children:
  assumes "c < length s" and "r < length s" and "el < length s" and "r \<noteq> el"
  shows "children (linked lib el r reltype target s ! c) =
           children (s ! c) @ (if c = r then [length s] else []) @
           (if c = el \<and> lib = ElementTree then [length s] else [])"
  using assms by (cases lib; simp add: linked_def Let_def nth_list_update nth_append)

lemma mset_concat_one_more:
  assumes "r \<in> set cs" and "distinct cs"
  shows "mset (concat (map (\<lambda>c. f c @ (if c = r then [n] else [])) cs)) =
         mset (concat (map f cs)) + {#n#}"
  using assms
proof (induction cs)
  case Nil then show ?case by simp
next
  case (Cons c cs)
  show ?case
  proof (cases "c = r")
    case True
    then have "r \<notin> set cs" using Cons.prems by simp
    then have eq: "map (\<lambda>c. f c @ (if c = r then [n] else [])) cs = map f cs"
      by (induction cs) auto
    show ?thesis using True by (simp add: eq)
  next
    case False
    then show ?thesis using Cons by simp
  qed
qed

lemma existing_rels_linked:
  assumes wf: "wf_store s" and el: "el < length s"
    and fc: "find_el s el ''SynsetRelations'' = Some r"
    and tg: "tag (s ! el) \<noteq> ''SynsetRelations''"
    and dist: "distinct (children (s ! el))"
    and se: "synset_el self = el"
  shows "mset (existing_rels self (linked lib el r reltype target s)) =
         mset (existing_rels self s) + {#(Some reltype, Some target)#}"
proof -
  let ?s' = "linked lib el r reltype target s"
  let ?n = "length s"
  have rin: "r \<in> set (children (s ! el))" and rt: "tag (s ! r) = ''SynsetRelations''"
    using find_el_SomeD[OF fc] by simp_all
  have rl: "r < ?n" using wf_store_children[OF wf el rin] .
  have rne: "r \<noteq> el" using tg rt by auto
  have old: "\<And>c. c \<in> set (children (s ! el)) \<Longrightarrow> c < ?n"
    using wf_store_children[OF wf el] by blast
  let ?cs = "iterchildren s el ''SynsetRelations''"
  have cs': "iterchildren ?s' el ''SynsetRelations'' = ?cs"
  proof -
    have "filter (\<lambda>c. tag (?s' ! c) = ''SynsetRelations'') (children (s ! el)) =
          filter (\<lambda>c. tag (s ! c) = ''SynsetRelations'') (children (s ! el))"
      by (rule filter_cong) (simp_all add: linked_old(1)[OF old rl el])
    then show ?thesis
      using linked_children[OF el rl el rne, of lib reltype target] rne
        linked_new(1)[OF rl el, of lib reltype target]
      by (cases lib) (simp_all add: iterchildren_def)
  qed
  have csin: "\<And>c. c \<in> set ?cs \<Longrightarrow> c < ?n \<and> c \<noteq> el"
    using old tg by (auto simp: iterchildren_def)
  have rcs: "r \<in> set ?cs" using rin rt by (simp add: iterchildren_def)
  have dcs: "distinct ?cs" using dist by (simp add: iterchildren_def)
  have per: "\<And>c. c \<in> set ?cs \<Longrightarrow>
      iterchildren ?s' c ''SynsetRelation'' =
      iterchildren s c ''SynsetRelation'' @ (if c = r then [?n] else [])"
  proof -
    fix c assume c: "c \<in> set ?cs"
    then have cl: "c < ?n" and cne: "c \<noteq> el" using csin by auto
    have kids: "\<And>x. x \<in> set (children (s ! c)) \<Longrightarrow> x < ?n"
      using wf_store_children[OF wf cl] by blast
    have "filter (\<lambda>x. tag (?s' ! x) = ''SynsetRelation'') (children (s ! c)) =
          filter (\<lambda>x. tag (s ! x) = ''SynsetRelation'') (children (s ! c))"
      by (rule filter_cong) (simp_all add: linked_old(1)[OF kids rl el])
    then show "iterchildren ?s' c ''SynsetRelation'' =
      iterchildren s c ''SynsetRelation'' @ (if c = r then [?n] else [])"
      using linked_children[OF cl rl el rne, of lib reltype target] cne
        linked_new(1)[OF rl el, of lib reltype target]
      by (simp add: iterchildren_def)
  qed
  let ?f = "\<lambda>c. iterchildren s c ''SynsetRelation''"
  let ?xs = "concat (map ?f ?cs)"
  have refs: "mset (concat (map (\<lambda>c. iterchildren ?s' c ''SynsetRelation'') ?cs)) =
              mset ?xs + {#?n#}"
  proof -
    have m: "map (\<lambda>c. iterchildren ?s' c ''SynsetRelation'') ?cs =
          map (\<lambda>c. ?f c @ (if c = r then [?n] else [])) ?cs"
      by (rule map_cong) (simp_all add: per)
    show ?thesis unfolding m by (rule mset_concat_one_more[OF rcs dcs])
  qed
  let ?p' = "\<lambda>x. (get_attr ?s' x ''relType'', get_attr ?s' x ''target'')"
  let ?p = "\<lambda>x. (get_attr s x ''relType'', get_attr s x ''target'')"
  have xsl: "\<And>x. x \<in> set ?xs \<Longrightarrow> x < ?n"
  proof -
    fix x assume "x \<in> set ?xs"
    then obtain c where c: "c \<in> set ?cs" and x: "x \<in> set (children (s ! c))"
      by (auto simp: iterchildren_def)
    show "x < ?n" using wf_store_children[OF wf _ x] csin[OF c] by simp
  qed
  have pold: "image_mset ?p' (mset ?xs) = image_mset ?p (mset ?xs)"
    by (rule image_mset_cong) (simp add: get_attr_def linked_old(2)[OF xsl rl el])
  have pnew: "?p' ?n = (Some reltype, Some target)"
    by (simp add: get_attr_def linked_new(2)[OF rl el])
  have "mset (existing_rels self ?s') =
        image_mset ?p' (mset (concat (map (\<lambda>c. iterchildren ?s' c ''SynsetRelation'') ?cs)))"
    by (simp add: existing_rels_def all_relations_def se cs' get_reltype_def get_target_def
        comp_def)
  also have "\<dots> = image_mset ?p (mset ?xs) + {#(Some reltype, Some target)#}"
    by (simp add: refs pold pnew)
  also have "image_mset ?p (mset ?xs) = mset (existing_rels self s)"
    by (simp add: existing_rels_def all_relations_def se get_reltype_def get_target_def comp_def)
  finally show ?thesis .
qed

lemma add_relation_stranded:
  assumes wf: "wf_store s" and el: "el < length s"
    and nc: "find_el s el ''SynsetRelations'' = None"
    and v: "validate (get_attr s el ''id'') reltype target = None"
  shows "add_relation lib (with_validator validate (Synset_init el rts ids s)) reltype target s =
     (Inl (AttributeError ''NoneType object has no attribute append''),
      stranded lib el reltype target s)"
proof -
  have nin: "length s \<notin> set (children (s ! el))"
    using wf_store_children[OF wf el] by auto
  then have r: "remove1 (length s) (children (s ! el)) = children (s ! el)"
    by (simp add: remove1_idem)
  show ?thesis
    using assms r nin
      all_relations_no_container[of s "with_validator validate (Synset_init el rts ids s)"]
    by (cases lib)
       (simp_all add: stranded_def add_relation_def with_validator_def Synset_init_def
          synset_id_def SubElement_def append_el_def Let_def nth_append list_update_append
          remove1_append)
qed

lemma iterchildren_stranded:
  assumes wf: "wf_store s" and el: "el < length s"
    and nc: "find_el s el ''SynsetRelations'' = None"
  shows "iterchildren (stranded lib el reltype target s) el ''SynsetRelations'' =
      (case lib of Lxml \<Rightarrow> [length s] | ElementTree \<Rightarrow> [length s, length s])"
proof -
  have old: "\<forall>c \<in> set (children (s ! el)). c < length s"
    using wf_store_children[OF wf el] by blast
  have "filter (\<lambda>c. tag (s ! c) = ''SynsetRelations'') (children (s ! el)) = []"
    using nc by (simp add: find_el_def iterchildren_def split: list.splits)
  then have none: "\<forall>c \<in> set (children (s ! el)). tag (s ! c) \<noteq> ''SynsetRelations''"
    by (simp add: filter_empty_conv)
  have "\<forall>c \<in> set (children (s ! el)).
          tag (stranded lib el reltype target s ! c) \<noteq> ''SynsetRelations''"
    using old none el by (auto simp: stranded_def Let_def nth_list_update nth_append)
  then have f: "filter (\<lambda>c. tag (stranded lib el reltype target s ! c) = ''SynsetRelations'')
                  (children (s ! el)) = []"
    by (simp add: filter_empty_conv)
  show ?thesis
    using el f
    by (cases lib) (simp_all add: iterchildren_def, simp_all add: stranded_def Let_def nth_append)
qed

lemma all_relations_stranded:
  assumes wf: "wf_store s" and el: "el < length s"
    and nc: "find_el s el ''SynsetRelations'' = None"
    and se: "synset_el self = el"
  shows "all_relations self (stranded lib el reltype target s) = []"
proof -
  have "iterchildren (stranded lib el reltype target s) (length s) ''SynsetRelation'' = []"
    using el by (simp add: iterchildren_def stranded_def Let_def nth_append)
  then show ?thesis
    using iterchildren_stranded[OF wf el nc, of lib reltype target] se
    by (cases lib) (simp_all add: all_relations_def)
qed

section \<open>Paths and relations\<close>

text \<open>
  The literal paths of synset.py are read as the definitions above have them: a tag name
  is one step to the children with that tag, and \<^verbatim>\<open>SynsetRelations/SynsetRelation\<close> is two.
\<close>

lemma tokens_literal:
  "xpath_tokenizer_re ''SynsetRelations/SynsetRelation'' =
     [([], ''SynsetRelations''), (''/'', []), ([], ''SynsetRelation'')]"
  by (simp add: match_at_def match_tag_def tag_char_def is_space_def)

lemma iterfind_relations_path:
  "iterfind s r ''SynsetRelations/SynsetRelation'' =
     Returns (concat (map (\<lambda>c. iterchildren s c ''SynsetRelation'')
                          (iterchildren s r ''SynsetRelations'')))"
  unfolding iterfind_def tokens_literal
  by (simp add: bad_prefix_def plain_tag_def)

lemma iterfind_tag:
  "iterfind s r ''Definitions'' = Returns (iterchildren s r ''Definitions'')"
  "iterfind s r ''Definition'' = Returns (iterchildren s r ''Definition'')"
  "iterfind s r ''SynsetRelations'' = Returns (iterchildren s r ''SynsetRelations'')"
  by (simp_all add: iterfind_def match_at_def match_tag_def tag_char_def is_space_def
      bad_prefix_def plain_tag_def)

lemma takeWhile_quoted:
  "dq \<notin> set t \<Longrightarrow> takeWhile (\<lambda>x. x \<noteq> dq) (t @ dq # rest) = t"
  by (induction t) auto

lemma tokens_query:
  assumes "dq \<notin> set t"
  shows "xpath_tokenizer_re (''SynsetRelations/SynsetRelation[@relType='' @ [dq] @ t @ [dq] @ '']'') =
     [([], ''SynsetRelations''), (''/'', []), ([], ''SynsetRelation''), (''['', []), (''@'', []),
      ([], ''relType''), (''='', []), (dq # t @ [dq], []), ('']'', [])]"
  using assms
  by (simp add: match_at_def match_tag_def tag_char_def is_space_def takeWhile_quoted)

lemma relations_filter:
  assumes "dq \<notin> set t"
  shows "relations self t s =
           Returns (filter (\<lambda>rel. get_reltype rel s = Some t) (all_relations self s))"
  unfolding relations_def iterfind_def Let_def tokens_query[OF assms]
  by (simp add: bad_prefix_def plain_tag_def predicate_step_def all_relations_def
      get_reltype_def filter_map comp_def)

text \<open>
  The example of the specification: \<^verbatim>\<open>relations("has_hyperonym")\<close> on the element of the
  docstring returns one Relation, with target \<^verbatim>\<open>eng-30-00322847-v\<close>.
\<close>

lemma relations_example:
  "relations synset_bake ''has_hyperonym'' (doc_bake Lxml) = Returns [Relation 3]
   \<and> get_target (Relation 3) (doc_bake Lxml) = Some ''eng-30-00322847-v''"
proof -
  have "synset_el synset_bake = 1" by (simp add: synset_bake_def Synset_init_def)
  then have a: "all_relations synset_bake (doc_bake Lxml) = [Relation 3, Relation 4]"
    by (rule all_relations_doc_bake)
  have "relations synset_bake ''has_hyperonym'' (doc_bake Lxml) =
        Returns (filter (\<lambda>rel. get_reltype rel (doc_bake Lxml) = Some ''has_hyperonym'')
                   (all_relations synset_bake (doc_bake Lxml)))"
    by (rule relations_filter) simp
  then show ?thesis
    unfolding a by (simp add: get_reltype_def get_target_def get_attr_def doc_bake_def)
qed

text \<open>
  C8 fails on the code. The second relation of the example has the relation type \<^verbatim>\<open>"\<close>,
  so that type is present on the node and \<^verbatim>\<open>all_relations()\<close> yields one relation of that
  type. \<^verbatim>\<open>relations\<close> called with it builds the path
  \<^verbatim>\<open>SynsetRelations/SynsetRelation[@relType="""]\<close>, whose predicate closes the string after
  the second quote and goes on with a name, and raises \<^verbatim>\<open>SyntaxError\<close>. For every relation
  type without a double quote the claim holds (lemma \<open>relations_filter\<close>).
\<close>

theorem relations_raises_on_quote:
  "get_reltype (Relation 4) doc_quoted = Some [dq]
   \<and> all_relations synset_quoted doc_quoted = [Relation 3, Relation 4]
   \<and> filter (\<lambda>rel. get_reltype rel doc_quoted = Some [dq])
        (all_relations synset_quoted doc_quoted) = [Relation 4]
   \<and> relations synset_quoted [dq] doc_quoted = Raises (SyntaxError ''invalid predicate'')"
proof -
  have a: "all_relations synset_quoted doc_quoted = [Relation 3, Relation 4]"
    by (simp add: all_relations_def iterchildren_def synset_quoted_def Synset_init_def
        doc_quoted_def)
  have b: "get_reltype (Relation 3) doc_quoted = Some ''has_hyperonym''"
          "get_reltype (Relation 4) doc_quoted = Some [dq]"
    by (simp_all add: get_reltype_def get_attr_def doc_quoted_def)
  have c: "xpath_tokenizer_re (''SynsetRelations/SynsetRelation[@relType='' @ [dq] @ [dq] @ [dq] @ '']'') =
     [([], ''SynsetRelations''), (''/'', []), ([], ''SynsetRelation''), (''['', []), (''@'', []),
      ([], ''relType''), (''='', []), ([dq, dq], []), ([], [dq]), ('']'', [])]"
    by (simp add: match_at_def match_tag_def tag_char_def is_space_def)
  have d: "relations synset_quoted [dq] doc_quoted = Raises (SyntaxError ''invalid predicate'')"
    unfolding relations_def iterfind_def Let_def c
    by (simp add: bad_prefix_def plain_tag_def predicate_step_def known_signatures_def)
  show ?thesis using a b d by simp
qed

section \<open>Glosses\<close>

text \<open>
  C7. For a node and a set of languages, \<^verbatim>\<open>glosses(languages)\<close> returns the \<^verbatim>\<open>gloss\<close>
  attributes of the Definition elements of the node's Definitions section whose
  \<^verbatim>\<open>language\<close> attribute is a member of the set, in document order, and the empty list
  when the node has no Definitions section; without an argument the set is \<^verbatim>\<open>en\<close>, \<^verbatim>\<open>nl\<close>.
\<close>

theorem glosses_in_document_order:
  "glosses (Synset_init el rts ids s) languages s =
     (case find_el s el ''Definitions'' of
        None \<Rightarrow> []
      | Some d \<Rightarrow> [get_attr s c ''gloss''. c \<leftarrow> children (s ! d), tag (s ! c) = ''Definition'',
                    \<exists>l. get_attr s c ''language'' = Some l \<and> l \<in> languages])
   \<and> glosses_default (Synset_init el rts ids s) s =
       glosses (Synset_init el rts ids s) {''en'', ''nl''} s"
proof -
  have eq: "(\<lambda>c. case get_attr s c ''language'' of None \<Rightarrow> False | Some l \<Rightarrow> l \<in> languages)
          = (\<lambda>c. \<exists>l. get_attr s c ''language'' = Some l \<and> l \<in> languages)"
    by (auto split: option.splits)
  show ?thesis
    by (simp add: glosses_def glosses_default_def default_languages_def Synset_init_def
        iterchildren_def comprehension_as_filter eq split: option.splits)
qed

text \<open>
  With the default languages the English and the Dutch gloss of the example are returned,
  in that order, and the German one is left out; asked for German, it alone is returned;
  the example without a Definitions section has no glosses.
\<close>

theorem glosses_in_document_order_witness:
  "glosses_default (Synset_init 1 {} {} (doc_glossed Lxml)) (doc_glossed Lxml) =
     [Some ''cook with dry heat, usually in an oven'', Some ''in de oven gaar maken'']
   \<and> glosses (Synset_init 1 {} {} (doc_glossed Lxml)) {''de''} (doc_glossed Lxml) =
     [Some ''im Ofen garen'']
   \<and> glosses_default (Synset_init 1 {} {} (doc_bake Lxml)) (doc_bake Lxml) = []"
proof -
  note g = glosses_in_document_order [of 1 "{}" "{}"]
  have a: "find_el (doc_glossed Lxml) 1 ''Definitions'' = Some 2"
    by (simp add: find_el_def iterchildren_def doc_glossed_def)
  have b: "find_el (doc_bake Lxml) 1 ''Definitions'' = None"
    by (simp add: find_el_def iterchildren_def doc_bake_def)
  have "glosses_default (Synset_init 1 {} {} (doc_glossed Lxml)) (doc_glossed Lxml) =
     [Some ''cook with dry heat, usually in an oven'', Some ''in de oven gaar maken'']"
    unfolding g [THEN conjunct2] g [THEN conjunct1] a
    by (simp add: doc_glossed_def get_attr_def)
  moreover have "glosses (Synset_init 1 {} {} (doc_glossed Lxml)) {''de''} (doc_glossed Lxml) =
     [Some ''im Ofen garen'']"
    unfolding g [THEN conjunct1] a
    by (simp add: doc_glossed_def get_attr_def)
  moreover have "glosses_default (Synset_init 1 {} {} (doc_bake Lxml)) (doc_bake Lxml) = []"
    unfolding g [THEN conjunct2] g [THEN conjunct1] b by simp
  ultimately show ?thesis by simp
qed

section \<open>Removing a node\<close>

text \<open>
  C5, as the code has it. With lxml, \<^verbatim>\<open>remove()\<close> on a node that has a parent unlinks the
  element, which is then no longer among the children of its former parent; on a node
  without a parent (the root, or a node already removed) it fails with an
  \<^verbatim>\<open>AttributeError\<close>, and so does a second \<^verbatim>\<open>remove()\<close> on the same node.
\<close>

theorem remove_detaches:
  "(parent (s ! synset_el self) = None \<longrightarrow>
      remove Lxml self s = (Inl (AttributeError ''NoneType object has no attribute remove''), s)) \<and>
   (\<forall>p. parent (s ! synset_el self) = Some p \<and> synset_el self < length s \<and> p < length s \<and>
         distinct (children (s ! p)) \<longrightarrow>
      (\<exists>s'. remove Lxml self s = (Inr PyNone, s') \<and>
            synset_el self \<notin> set (children (s' ! p)) \<and>
            children (s' ! p) = remove1 (synset_el self) (children (s ! p)) \<and>
            remove Lxml self s' =
              (Inl (AttributeError ''NoneType object has no attribute remove''), s')))"
  by (auto simp: remove_def remove_child_def Let_def nth_list_update)

text \<open>
  The Synset of the example is the only child of the root; after \<^verbatim>\<open>remove()\<close> the root has
  no children. The root itself has no parent, and removing it fails.
\<close>

theorem remove_detaches_witness:
  "parent (doc_bake Lxml ! 1) = Some 0 \<and> distinct (children (doc_bake Lxml ! 0)) \<and>
   (\<exists>s'. remove Lxml (Synset_init 1 {} {} (doc_bake Lxml)) (doc_bake Lxml) = (Inr PyNone, s') \<and>
         children (s' ! 0) = []) \<and>
   parent (doc_bake Lxml ! 0) = None \<and>
   remove Lxml (Synset_init 0 {} {} (doc_bake Lxml)) (doc_bake Lxml) =
     (Inl (AttributeError ''NoneType object has no attribute remove''), doc_bake Lxml)"
proof -
  have p1: "parent (doc_bake Lxml ! synset_el (Synset_init 1 {} {} (doc_bake Lxml))) = Some 0 \<and>
            synset_el (Synset_init 1 {} {} (doc_bake Lxml)) < length (doc_bake Lxml) \<and>
            0 < length (doc_bake Lxml) \<and> distinct (children (doc_bake Lxml ! 0))"
    by (simp add: doc_bake_def Synset_init_def)
  have p0: "parent (doc_bake Lxml ! synset_el (Synset_init 0 {} {} (doc_bake Lxml))) = None"
    by (simp add: doc_bake_def Synset_init_def)
  have c: "remove1 (synset_el (Synset_init 1 {} {} (doc_bake Lxml))) (children (doc_bake Lxml ! 0)) = []"
    by (simp add: doc_bake_def Synset_init_def)
  from remove_detaches [of "doc_bake Lxml" "Synset_init 1 {} {} (doc_bake Lxml)"] p1
  obtain s' where "remove Lxml (Synset_init 1 {} {} (doc_bake Lxml)) (doc_bake Lxml) = (Inr PyNone, s')"
    and "children (s' ! 0) =
         remove1 (synset_el (Synset_init 1 {} {} (doc_bake Lxml))) (children (doc_bake Lxml ! 0))"
    by blast
  then have e: "\<exists>s'. remove Lxml (Synset_init 1 {} {} (doc_bake Lxml)) (doc_bake Lxml) = (Inr PyNone, s') \<and>
         children (s' ! 0) = []"
    using c by simp
  have r0: "remove Lxml (Synset_init 0 {} {} (doc_bake Lxml)) (doc_bake Lxml) =
     (Inl (AttributeError ''NoneType object has no attribute remove''), doc_bake Lxml)"
    using remove_detaches [of "doc_bake Lxml" "Synset_init 0 {} {} (doc_bake Lxml)"] p0 by blast
  show ?thesis using p1 p0 e r0 by (simp add: Synset_init_def)
qed

text \<open>
  C5, as the claim states it, fails: the second \<^verbatim>\<open>remove()\<close> on the Synset of the example
  raises an \<^verbatim>\<open>AttributeError\<close>, not a \<^verbatim>\<open>DetachedNodeError\<close>.
\<close>

theorem second_remove_is_attribute_error:
  "fst (remove Lxml (Synset_init 1 {} {} (doc_bake Lxml)) (doc_bake Lxml)) = Inr PyNone \<and>
   fst (remove Lxml (Synset_init 1 {} {} (doc_bake Lxml))
          (snd (remove Lxml (Synset_init 1 {} {} (doc_bake Lxml)) (doc_bake Lxml))))
     = Inl (AttributeError ''NoneType object has no attribute remove'') \<and>
   exn_class (AttributeError ''NoneType object has no attribute remove'') \<noteq> ''DetachedNodeError''"
  by (simp add: remove_def remove_child_def Synset_init_def doc_bake_def Let_def)

section \<open>Adding a relation\<close>

text \<open>
  C4. For every instance of class Synset and every pair of arguments, \<^verbatim>\<open>add_relation\<close>
  raises an \<^verbatim>\<open>AttributeError\<close>, because the class has no method \<^verbatim>\<open>validate_relation\<close>; this
  happens before the duplicate check and before any change to the tree, which is left as
  it was.
\<close>

theorem add_relation_attribute_error:
  "add_relation lib (Synset_init el rts ids s0) reltype target s =
     (Inl (AttributeError ''Synset object has no attribute validate_relation''), s)"
  by (simp add: add_relation_def Synset_init_def)





text \<open>
  C1 fails on the code. The Synset of the example without a SynsetRelations section is
  asked to add a relation whose type and target are in the vocabularies and which it
  does not have. The class as written raises at line 122 and adds nothing. Given the
  validation routine of the specification, the call gets as far as line 141 and raises
  there: the container of line 132 stays empty, the new element hangs under the Synset
  element, and \<^verbatim>\<open>all_relations()\<close> has no new entry.
\<close>

theorem add_relation_adds_nothing_without_container:
  "find_el (doc_glossed Lxml) 1 ''SynsetRelations'' = None
   \<and> ''has_hyperonym'' \<in> known_reltypes \<and> ''eng-30-00322847-v'' \<in> known_ids
   \<and> existing_rels synset_glossed (doc_glossed Lxml) = []
   \<and> add_relation Lxml synset_glossed ''has_hyperonym'' ''eng-30-00322847-v'' (doc_glossed Lxml) =
       (Inl (AttributeError ''Synset object has no attribute validate_relation''), doc_glossed Lxml)
   \<and> fst (add_relation Lxml (validated synset_glossed) ''has_hyperonym'' ''eng-30-00322847-v''
            (doc_glossed Lxml)) =
       Inl (AttributeError ''NoneType object has no attribute append'')
   \<and> existing_rels synset_glossed
       (snd (add_relation Lxml (validated synset_glossed) ''has_hyperonym'' ''eng-30-00322847-v''
               (doc_glossed Lxml))) = []"
proof -
  have h2: "1 < length (doc_glossed Lxml)" by (simp add: doc_glossed_def)
  have h3: "find_el (doc_glossed Lxml) 1 ''SynsetRelations'' = None"
    by (simp add: find_el_def iterchildren_def doc_glossed_def)
  have h4: "validate_relation_spec known_reltypes known_ids (get_attr (doc_glossed Lxml) 1 ''id'')
        ''has_hyperonym'' ''eng-30-00322847-v'' = None"
    by (simp add: validate_relation_spec_def known_reltypes_def known_ids_def)
  have v: "validated synset_glossed =
           with_validator (validate_relation_spec known_reltypes known_ids)
             (Synset_init 1 known_reltypes known_ids (doc_glossed Lxml))"
    by (simp add: validated_def synset_glossed_def Synset_init_def)
  have a: "add_relation Lxml (validated synset_glossed) ''has_hyperonym'' ''eng-30-00322847-v''
             (doc_glossed Lxml) =
           (Inl (AttributeError ''NoneType object has no attribute append''),
            stranded Lxml 1 ''has_hyperonym'' ''eng-30-00322847-v'' (doc_glossed Lxml))"
    unfolding v
    by (rule add_relation_stranded
          [where validate = "validate_relation_spec known_reltypes known_ids",
           OF wf_doc_glossed h2 h3 h4])
  have b: "all_relations synset_glossed
             (stranded Lxml 1 ''has_hyperonym'' ''eng-30-00322847-v'' (doc_glossed Lxml)) = []"
    by (rule all_relations_stranded [OF wf_doc_glossed h2 h3])
       (simp add: synset_glossed_def Synset_init_def)
  have c: "all_relations synset_glossed (doc_glossed Lxml) = []"
  proof (rule all_relations_no_container)
    have "synset_el synset_glossed = 1" by (simp add: synset_glossed_def Synset_init_def)
    then show "find_el (doc_glossed Lxml) (synset_el synset_glossed) ''SynsetRelations'' = None"
      using h3 by (simp only:)
  qed
  have d: "add_relation Lxml synset_glossed ''has_hyperonym'' ''eng-30-00322847-v''
             (doc_glossed Lxml) =
       (Inl (AttributeError ''Synset object has no attribute validate_relation''), doc_glossed Lxml)"
    by (simp add: add_relation_def synset_glossed_def Synset_init_def)
  have e: "''has_hyperonym'' \<in> known_reltypes \<and> ''eng-30-00322847-v'' \<in> known_ids"
    by (simp add: known_reltypes_def known_ids_def)
  show ?thesis using h3 a b c d e by (simp add: existing_rels_def)
qed

text \<open>
  C2 fails on the code. The Synset of the example has the relation
  (\<^verbatim>\<open>has_hyperonym\<close>, \<^verbatim>\<open>eng-30-00322847-v\<close>); adding it again raises the \<^verbatim>\<open>AttributeError\<close> of
  line 122, not the error of line 128, which is never reached. The tree is unchanged.
\<close>

theorem add_relation_duplicate_check_unreached:
  "(Some ''has_hyperonym'', Some ''eng-30-00322847-v'') \<in> set (existing_rels synset_bake (doc_bake Lxml))
   \<and> add_relation Lxml synset_bake ''has_hyperonym'' ''eng-30-00322847-v'' (doc_bake Lxml) =
       (Inl (AttributeError ''Synset object has no attribute validate_relation''), doc_bake Lxml)
   \<and> exn_class (AttributeError ''Synset object has no attribute validate_relation'') \<noteq> ''ValueError''
   \<and> exn_class (AttributeError ''Synset object has no attribute validate_relation'')
       \<noteq> ''DuplicateRelation''"
proof -
  have "synset_el synset_bake = 1" by (simp add: synset_bake_def Synset_init_def)
  then have "existing_rels synset_bake (doc_bake Lxml) =
     [(Some ''has_hyperonym'', Some ''eng-30-00322847-v''),
      (Some ''has_hyponym'', Some ''eng-30-00325085-v'')]"
    by (rule existing_rels_doc_bake)
  moreover have "add_relation Lxml synset_bake ''has_hyperonym'' ''eng-30-00322847-v'' (doc_bake Lxml) =
       (Inl (AttributeError ''Synset object has no attribute validate_relation''), doc_bake Lxml)"
    by (simp add: add_relation_def synset_bake_def Synset_init_def)
  ultimately show ?thesis by simp
qed

text \<open>
  C3 fails on the code. The type \<^verbatim>\<open>has_hyperonymm\<close> is not a known relation type; the call
  raises the \<^verbatim>\<open>AttributeError\<close> of line 122 and no validation error. The tree is unchanged,
  as the claim says.
\<close>

theorem add_relation_validation_unreached:
  "''has_hyperonymm'' \<notin> known_reltypes
   \<and> add_relation Lxml synset_bake ''has_hyperonymm'' ''eng-30-00322847-v'' (doc_bake Lxml) =
       (Inl (AttributeError ''Synset object has no attribute validate_relation''), doc_bake Lxml)
   \<and> exn_class (AttributeError ''Synset object has no attribute validate_relation'')
       \<noteq> ''InvalidRelationType''"
  by (simp add: known_reltypes_def add_relation_def synset_bake_def Synset_init_def)

text \<open>
  C6 fails on the code. For a valid pair that the Synset of the example does not have,
  the class as written raises; given the validation routine of the specification the
  call completes and returns \<^verbatim>\<open>None\<close>, not the pair (success, message) that the docstring
  announces.
\<close>

theorem add_relation_returns_no_tuple:
  "''has_hyponym'' \<in> known_reltypes \<and> ''eng-30-00322847-v'' \<in> known_ids
   \<and> (Some ''has_hyponym'', Some ''eng-30-00322847-v'') \<notin> set (existing_rels synset_bake (doc_bake Lxml))
   \<and> fst (add_relation Lxml synset_bake ''has_hyponym'' ''eng-30-00322847-v'' (doc_bake Lxml)) =
       Inl (AttributeError ''Synset object has no attribute validate_relation'')
   \<and> fst (add_relation Lxml (validated synset_bake) ''has_hyponym'' ''eng-30-00322847-v''
            (doc_bake Lxml)) = Inr PyNone"
proof -
  have el: "synset_el synset_bake = 1" by (simp add: synset_bake_def Synset_init_def)
  have ex: "existing_rels synset_bake (doc_bake Lxml) =
     [(Some ''has_hyperonym'', Some ''eng-30-00322847-v''),
      (Some ''has_hyponym'', Some ''eng-30-00325085-v'')]"
    using el by (rule existing_rels_doc_bake)
  have v: "validated synset_bake =
           with_validator (validate_relation_spec known_reltypes known_ids)
             (Synset_init 1 known_reltypes known_ids (doc_bake Lxml))"
    by (simp add: validated_def synset_bake_def Synset_init_def)
  have h2: "1 < length (doc_bake Lxml)" by (simp add: doc_bake_def)
  have h3: "find_el (doc_bake Lxml) 1 ''SynsetRelations'' = Some 2"
    by (simp add: find_el_def iterchildren_def doc_bake_def)
  have h4: "tag (doc_bake Lxml ! 1) \<noteq> ''SynsetRelations''" by (simp add: doc_bake_def)
  have h5: "validate_relation_spec known_reltypes known_ids (get_attr (doc_bake Lxml) 1 ''id'')
        ''has_hyponym'' ''eng-30-00322847-v'' = None"
    by (simp add: validate_relation_spec_def known_reltypes_def known_ids_def)
  have h6: "(Some ''has_hyponym'', Some ''eng-30-00322847-v'') \<notin>
      set (existing_rels (Synset_init 1 known_reltypes known_ids (doc_bake Lxml)) (doc_bake Lxml))"
    using ex by (simp add: synset_bake_def)
  have a: "fst (add_relation Lxml (validated synset_bake) ''has_hyponym'' ''eng-30-00322847-v''
            (doc_bake Lxml)) = Inr PyNone"
    unfolding v
    using add_relation_linked
          [where validate = "validate_relation_spec known_reltypes known_ids" and lib = Lxml,
           OF wf_doc_bake h2 h3 h4 h5 h6]
    by simp
  have b: "fst (add_relation Lxml synset_bake ''has_hyponym'' ''eng-30-00322847-v'' (doc_bake Lxml)) =
       Inl (AttributeError ''Synset object has no attribute validate_relation'')"
    by (simp add: add_relation_def synset_bake_def Synset_init_def)
  show ?thesis using a b ex by (simp add: known_reltypes_def known_ids_def)
qed


end
